theory Spec2Isabelle
  imports Main "HOL-Library.Word"
begin

section \<open>Values, errors and the platform\<close>

text \<open>
  The library (\<^verbatim>\<open>squish.js\<close>) is an adapter layer over the platform's streams:
  \<^verbatim>\<open>toStream\<close> turns an input value into a \<^verbatim>\<open>ReadableStream\<close>, \<^verbatim>\<open>_transform\<close> pipes it
  through a \<^verbatim>\<open>CompressionStream\<close> or \<^verbatim>\<open>DecompressionStream\<close>, and \<^verbatim>\<open>fromStream\<close>
  materialises the result. The model follows the source function by function. What the
  source calls and does not define (the codec, \<^verbatim>\<open>Blob.stream\<close>, the MIME type a \<^verbatim>\<open>Blob\<close>
  reports, \<^verbatim>\<open>URL.createObjectURL\<close>) is a field of the record \<open>platform\<close>.
\<close>

type_synonym byte = "8 word"

text \<open>A JavaScript string: its UTF-16 code units.\<close>

type_synonym jsstring = "16 word list"

text \<open>
  Every error the source throws is a \<^verbatim>\<open>TypeError\<close> told apart by its message, or the
  \<^verbatim>\<open>reason\<close> of an \<^verbatim>\<open>AbortSignal\<close> thrown as it is. The last four constructors are the
  errors of the platform calls the source makes.
\<close>

datatype error =
    InvalidInputType string     \<comment> \<open>\<^verbatim>\<open>TypeError(`Invalid input type: ${typeof input}.`)\<close>\<close>
  | UnsupportedInputType        \<comment> \<open>\<^verbatim>\<open>TypeError('Unsupported input type.')\<close>\<close>
  | StreamNotReadable           \<comment> \<open>\<^verbatim>\<open>TypeError('Stream must be a `ReadableStream` instance.')\<close>\<close>
  | UnsupportedOutput string    \<comment> \<open>\<^verbatim>\<open>TypeError(`Unsupported output: "${output}."`)\<close>\<close>
  | Reason string               \<comment> \<open>\<^verbatim>\<open>throw signal.reason\<close>\<close>
  | StreamLocked                \<comment> \<open>platform: the stream already has a reader\<close>
  | UnsupportedFormat string    \<comment> \<open>platform: the codec constructor refuses the format\<close>
  | NotAFunction string         \<comment> \<open>platform: call of a property that is \<^verbatim>\<open>undefined\<close>\<close>
  | CorruptData                 \<comment> \<open>platform: the decompressor refuses its input\<close>

text \<open>
  A \<^verbatim>\<open>ReadableStream\<close> object: its identity, and what a reader gets from it, either all
  its chunks in order or the error the stream ends with.
\<close>

record 'c rstream =
  sid :: nat
  payload :: "error + 'c list"

text \<open>\<^verbatim>\<open>AbortSignal\<close>: the two properties the source reads.\<close>

record abort_signal =
  aborted :: bool
  reason :: string

text \<open>
  The values a caller can pass as \<^verbatim>\<open>data\<close> and the values the library returns. A
  \<^verbatim>\<open>Response\<close> or \<^verbatim>\<open>Request\<close> carries its \<^verbatim>\<open>body\<close>: \<open>None\<close> is \<^verbatim>\<open>null\<close>. Node's
  \<^verbatim>\<open>Buffer\<close> is a \<^verbatim>\<open>Uint8Array\<close>. \<open>JObject\<close> is any object of no class the source
  tests for.
\<close>

datatype jsval =
    JUndefined
  | JNull
  | JBoolean bool
  | JNumber int
  | JBigInt int
  | JSymbol
  | JFunction
  | JString jsstring
  | JReadableStream "byte list rstream"
  | JArrayBuffer "byte list"
  | JUint8Array "byte list"
  | JBlob "byte list" string
  | JResponse "byte list rstream option"
  | JRequest "byte list rstream option"
  | JArray "jsval list"
  | JObject

fun typeof :: "jsval \<Rightarrow> string" where
  "typeof JUndefined = ''undefined''"
| "typeof JNull = ''object''"
| "typeof (JBoolean b) = ''boolean''"
| "typeof (JNumber n) = ''number''"
| "typeof (JBigInt n) = ''bigint''"
| "typeof JSymbol = ''symbol''"
| "typeof JFunction = ''function''"
| "typeof (JString s) = ''string''"
| "typeof v = ''object''"

text \<open>
  A synchronous call returns \<open>error + 'a\<close> (\<open>Inl\<close> is a throw). An \<^verbatim>\<open>async\<close> function
  returns a promise, given here by how it settles.
\<close>

datatype 'a promise = Fulfilled 'a | Rejected error

text \<open>
  The state the calls act on: the streams a reader has been attached to
  (\<^verbatim>\<open>stream.locked\<close>), and the next unused stream identity. A call returns the state it
  leaves, so that what it has touched when it fails can be read off. Chunks are read
  from a locked stream whenever the platform chooses to; the state does not say when.
\<close>

record world =
  locked :: "nat set"
  next_id :: nat

definition wf_world :: "world \<Rightarrow> bool" where
  "wf_world w \<longleftrightarrow> (\<forall>i \<in> locked w. i < next_id w)"

definition init_world :: world where
  "init_world = \<lparr>locked = {}, next_id = 0\<rparr>"

text \<open>
  What the source uses and does not define. \<open>CompressionStream P f\<close> is \<open>None\<close> when the
  constructor throws on the format \<open>f\<close>; otherwise it maps the chunks written to the
  chunks read. A decompressor answers \<open>None\<close> when its input is not valid data of the
  format.
\<close>

record platform =
  CompressionStream :: "string \<Rightarrow> (byte list list \<Rightarrow> byte list list) option"
  DecompressionStream :: "string \<Rightarrow> (byte list list \<Rightarrow> byte list list option) option"
  blob_stream :: "byte list \<Rightarrow> byte list list"
  blob_type :: "string \<Rightarrow> string"
  createObjectURL :: "byte list \<Rightarrow> string \<Rightarrow> jsstring"

section \<open>Platform calls\<close>

text \<open>\<^verbatim>\<open>new ReadableStream({ start(controller) { ... } })\<close> and \<^verbatim>\<open>blob.stream()\<close>: a new object.\<close>

definition new_ReadableStream :: "error + 'c list \<Rightarrow> world \<Rightarrow> 'c rstream \<times> world" where
  "new_ReadableStream p w = (\<lparr>sid = next_id w, payload = p\<rparr>, w\<lparr>next_id := Suc (next_id w)\<rparr>)"

text \<open>
  \<^verbatim>\<open>source.pipeThrough(transform, { signal })\<close>: throws when the source is locked; otherwise
  locks it and returns the readable side of the transform, a new stream. That stream
  ends with the signal's reason when the signal is aborted already, with the source's
  error when the source ends with one, and carries what the transform makes of the
  source's chunks otherwise.
\<close>

definition pipeThrough :: "'a rstream \<Rightarrow> ('a list \<Rightarrow> error + 'b list) \<Rightarrow> abort_signal option
    \<Rightarrow> world \<Rightarrow> (error + 'b rstream) \<times> world" where
  "pipeThrough src t sg w =
     (if sid src \<in> locked w then (Inl StreamLocked, w)
      else
        let run = (case payload src of Inl e \<Rightarrow> Inl e | Inr cs \<Rightarrow> t cs);
            p = (case sg of
                   None \<Rightarrow> run
                 | Some s \<Rightarrow> if aborted s then Inl (Reason (reason s)) else run);
            (out, w') = new_ReadableStream p (w\<lparr>locked := insert (sid src) (locked w)\<rparr>)
        in (Inr out, w'))"

definition new_CompressionStream :: "platform \<Rightarrow> string
    \<Rightarrow> error + (byte list list \<Rightarrow> error + byte list list)" where
  "new_CompressionStream P f =
     (case CompressionStream P f of
        None \<Rightarrow> Inl (UnsupportedFormat f)
      | Some c \<Rightarrow> Inr (\<lambda>cs. Inr (c cs)))"

definition new_DecompressionStream :: "platform \<Rightarrow> string
    \<Rightarrow> error + (byte list list \<Rightarrow> error + byte list list)" where
  "new_DecompressionStream P f =
     (case DecompressionStream P f of
        None \<Rightarrow> Inl (UnsupportedFormat f)
      | Some d \<Rightarrow> Inr (\<lambda>cs. case d cs of None \<Rightarrow> Inl CorruptData | Some os \<Rightarrow> Inr os))"

text \<open>
  \<^verbatim>\<open>new Response(stream)\<close> throws on a locked stream. Reading the body to its end
  (\<^verbatim>\<open>blob()\<close>, \<^verbatim>\<open>arrayBuffer()\<close>, \<^verbatim>\<open>bytes()\<close>, \<^verbatim>\<open>text()\<close>) locks it and gives the
  concatenated chunks, or rejects with the stream's error.
\<close>

definition new_Response :: "byte list rstream \<Rightarrow> world \<Rightarrow> error + byte list rstream" where
  "new_Response s w = (if sid s \<in> locked w then Inl StreamLocked else Inr s)"

definition read_body :: "byte list rstream \<Rightarrow> world \<Rightarrow> byte list promise \<times> world" where
  "read_body s w =
     (case payload s of Inl e \<Rightarrow> Rejected e | Inr cs \<Rightarrow> Fulfilled (concat cs),
      w\<lparr>locked := insert (sid s) (locked w)\<rparr>)"

subsection \<open>UTF-8\<close>

text \<open>The bytes of one scalar value.\<close>

definition utf8_bytes :: "nat \<Rightarrow> byte list" where
  "utf8_bytes cp =
     (if cp < 0x80 then [of_nat cp]
      else if cp < 0x800 then [of_nat (0xC0 + cp div 64), of_nat (0x80 + cp mod 64)]
      else if cp < 0x10000 then
        [of_nat (0xE0 + cp div 4096), of_nat (0x80 + cp div 64 mod 64), of_nat (0x80 + cp mod 64)]
      else
        [of_nat (0xF0 + cp div 262144), of_nat (0x80 + cp div 4096 mod 64),
         of_nat (0x80 + cp div 64 mod 64), of_nat (0x80 + cp mod 64)])"

definition is_lead :: "16 word \<Rightarrow> bool" where
  "is_lead u \<longleftrightarrow> 0xD800 \<le> u \<and> u \<le> 0xDBFF"

definition is_trail :: "16 word \<Rightarrow> bool" where
  "is_trail u \<longleftrightarrow> 0xDC00 \<le> u \<and> u \<le> 0xDFFF"

definition from_surrogates :: "16 word \<Rightarrow> 16 word \<Rightarrow> nat" where
  "from_surrogates l t = 0x10000 + (unat l - 0xD800) * 1024 + (unat t - 0xDC00)"

definition emit :: "byte list \<Rightarrow> byte list \<times> 16 word option \<Rightarrow> byte list \<times> 16 word option" where
  "emit bs r = (bs @ fst r, snd r)"

text \<open>
  \<^verbatim>\<open>TextEncoderStream\<close> on one chunk: the encoder keeps a pending lead surrogate across
  chunks; a surrogate without its partner becomes U+FFFD.
\<close>

fun encode_chunk :: "16 word option \<Rightarrow> jsstring \<Rightarrow> byte list \<times> 16 word option" where
  "encode_chunk lead [] = ([], lead)"
| "encode_chunk None (u # us) =
     (if is_lead u then encode_chunk (Some u) us
      else if is_trail u then emit (utf8_bytes 0xFFFD) (encode_chunk None us)
      else emit (utf8_bytes (unat u)) (encode_chunk None us))"
| "encode_chunk (Some l) (u # us) =
     (if is_trail u then emit (utf8_bytes (from_surrogates l u)) (encode_chunk None us)
      else if is_lead u then emit (utf8_bytes 0xFFFD) (encode_chunk (Some u) us)
      else emit (utf8_bytes 0xFFFD @ utf8_bytes (unat u)) (encode_chunk None us))"

fun text_encoder :: "16 word option \<Rightarrow> jsstring list \<Rightarrow> byte list list" where
  "text_encoder lead [] = (case lead of None \<Rightarrow> [] | Some l \<Rightarrow> [utf8_bytes 0xFFFD])"
| "text_encoder lead (c # cs) =
     (let r = encode_chunk lead c
      in (if fst r = [] then [] else [fst r]) @ text_encoder (snd r) cs)"

definition TextEncoderStream :: "jsstring list \<Rightarrow> error + byte list list" where
  "TextEncoderStream cs = Inr (text_encoder None cs)"

text \<open>
  The UTF-8 decoder of \<^verbatim>\<open>Response.text()\<close>. A sequence in progress is the code point so far,
  the number of bytes still needed and the bounds on the next byte. A byte that cannot
  continue the sequence ends it with U+FFFD and is then read as a first byte.
\<close>

definition start_byte :: "nat \<Rightarrow> nat list \<times> (nat \<times> nat \<times> nat \<times> nat) option" where
  "start_byte b =
     (if b \<le> 0x7F then ([b], None)
      else if 0xC2 \<le> b \<and> b \<le> 0xDF then ([], Some (b mod 32, 1, 0x80, 0xBF))
      else if 0xE0 \<le> b \<and> b \<le> 0xEF then
        ([], Some (b mod 16, 2, if b = 0xE0 then 0xA0 else 0x80, if b = 0xED then 0x9F else 0xBF))
      else if 0xF0 \<le> b \<and> b \<le> 0xF4 then
        ([], Some (b mod 8, 3, if b = 0xF0 then 0x90 else 0x80, if b = 0xF4 then 0x8F else 0xBF))
      else ([0xFFFD], None))"

fun utf8_decoder :: "(nat \<times> nat \<times> nat \<times> nat) option \<Rightarrow> byte list \<Rightarrow> nat list" where
  "utf8_decoder st [] = (case st of None \<Rightarrow> [] | Some q \<Rightarrow> [0xFFFD])"
| "utf8_decoder None (b # bs) =
     (let r = start_byte (unat b) in fst r @ utf8_decoder (snd r) bs)"
| "utf8_decoder (Some (cp, need, lo, hi)) (b # bs) =
     (if unat b < lo \<or> hi < unat b then
        (let r = start_byte (unat b) in 0xFFFD # fst r @ utf8_decoder (snd r) bs)
      else
        let cp' = cp * 64 + unat b mod 64
        in if need = 1 then cp' # utf8_decoder None bs
           else utf8_decoder (Some (cp', need - 1, 0x80, 0xBF)) bs)"

definition utf16_units :: "nat \<Rightarrow> jsstring" where
  "utf16_units cp =
     (if cp < 0x10000 then [of_nat cp]
      else [of_nat (0xD800 + (cp - 0x10000) div 1024), of_nat (0xDC00 + (cp - 0x10000) mod 1024)])"

definition utf8_decode :: "byte list \<Rightarrow> jsstring" where
  "utf8_decode bs =
     concat (map utf16_units
       (utf8_decoder None (if take 3 bs = [0xEF, 0xBB, 0xBF] then drop 3 bs else bs)))"

subsection \<open>\<^verbatim>\<open>Uint8Array.prototype.toHex\<close>\<close>

definition hex_digit :: "nat \<Rightarrow> 16 word" where
  "hex_digit n = (if n < 10 then of_nat (48 + n) else of_nat (87 + n))"

definition toHex :: "byte list \<Rightarrow> jsstring" where
  "toHex bs = concat (map (\<lambda>b. [hex_digit (unat b div 16), hex_digit (unat b mod 16)]) bs)"

section \<open>The library\<close>

definition GZIP :: string where
  "GZIP = ''gzip''"

definition DEFLATE :: string where
  "DEFLATE = ''deflate''"

definition DEFLATE_RAW :: string where
  "DEFLATE_RAW = ''deflate-raw''"

definition DEFAULT_FORMAT :: string where
  "DEFAULT_FORMAT = GZIP"

text \<open>
  An options object: a property that is absent or \<^verbatim>\<open>undefined\<close> is \<open>None\<close>, and a
  destructuring default applies exactly then.
\<close>

record options =
  "output" :: "string option"
  format :: "string option"
  signal :: "abort_signal option"

record toptions = options +
  type :: "string option"

definition or_default :: "'a \<Rightarrow> 'a option \<Rightarrow> 'a" where
  "or_default d x = (case x of None \<Rightarrow> d | Some v \<Rightarrow> v)"

text \<open>
  \<^verbatim>\<open>toStream\<close>. The source tests \<^verbatim>\<open>typeof input !== 'object'\<close> second; the classes tested
  after it are all objects, so the last equation decides between the two errors.
\<close>

fun toStream :: "platform \<Rightarrow> jsval \<Rightarrow> world \<Rightarrow> (error + byte list rstream) \<times> world" where
  "toStream P (JString input) w =
     (let (src, w1) = new_ReadableStream (Inr [input]) w
      in pipeThrough src TextEncoderStream None w1)"
| "toStream P (JReadableStream input) w = (Inr input, w)"
| "toStream P (JArrayBuffer input) w =
     (let (s, w1) = new_ReadableStream (Inr [input]) w in (Inr s, w1))"
| "toStream P (JUint8Array input) w =
     (let (s, w1) = new_ReadableStream (Inr [input]) w in (Inr s, w1))"
| "toStream P (JBlob input ty) w =
     (let (s, w1) = new_ReadableStream (Inr (blob_stream P input)) w in (Inr s, w1))"
| "toStream P (JResponse (Some body)) w = (Inr body, w)"
| "toStream P (JRequest (Some body)) w = (Inr body, w)"
| "toStream P input w =
     (if typeof input \<noteq> ''object'' then (Inl (InvalidInputType (typeof input)), w)
      else (Inl UnsupportedInputType, w))"

text \<open>\<^verbatim>\<open>promise.then(f)\<close> with a function \<open>f\<close> that does not throw.\<close>

definition then_map :: "'a promise \<times> world \<Rightarrow> ('a \<Rightarrow> 'b) \<Rightarrow> 'b promise \<times> world" where
  "then_map r f = (case fst r of Fulfilled x \<Rightarrow> Fulfilled (f x) | Rejected e \<Rightarrow> Rejected e, snd r)"

text \<open>\<^verbatim>\<open>new Response(stream, ...)\<close> followed by a read of the whole body.\<close>

definition Response_bytes :: "byte list rstream \<Rightarrow> world \<Rightarrow> byte list promise \<times> world" where
  "Response_bytes s w =
     (case new_Response s w of Inl e \<Rightarrow> (Rejected e, w) | Inr body \<Rightarrow> read_body body w)"

text \<open>
  \<^verbatim>\<open>fromStream\<close>, the \<^verbatim>\<open>switch\<close> in its order. In the cases \<^verbatim>\<open>'base64'\<close> and
  \<^verbatim>\<open>'base64url'\<close> the source calls \<^verbatim>\<open>then\<close> on the \<^verbatim>\<open>Response\<close> itself, which has no such
  method: the call throws after the \<^verbatim>\<open>Response\<close> is built and before its body is read.
\<close>

definition fromStream :: "platform \<Rightarrow> jsval \<Rightarrow> string option \<Rightarrow> string option \<Rightarrow> world
    \<Rightarrow> jsval promise \<times> world" where
  "fromStream P stream output_arg type_arg w =
     (let out = or_default ''blob'' output_arg;
          ty = or_default ''application/octet-stream'' type_arg
      in case stream of
           JReadableStream s \<Rightarrow>
             (if out = ''stream'' then (Fulfilled stream, w)
              else if out = ''response'' then
                (case new_Response s w of
                   Inl e \<Rightarrow> (Rejected e, w)
                 | Inr body \<Rightarrow> (Fulfilled (JResponse (Some body)), w))
              else if out = ''blob'' then
                then_map (Response_bytes s w) (\<lambda>bytes. JBlob bytes (blob_type P ty))
              else if out = ''buffer'' then then_map (Response_bytes s w) JArrayBuffer
              else if out = ''bytes'' then then_map (Response_bytes s w) JUint8Array
              else if out = ''hex'' then
                then_map (Response_bytes s w) (\<lambda>bytes. JString (toHex bytes))
              else if out = ''base64'' then
                (case new_Response s w of
                   Inl e \<Rightarrow> (Rejected e, w)
                 | Inr body \<Rightarrow> (Rejected (NotAFunction ''then''), w))
              else if out = ''base64url'' then
                (case new_Response s w of
                   Inl e \<Rightarrow> (Rejected e, w)
                 | Inr body \<Rightarrow> (Rejected (NotAFunction ''then''), w))
              else if out = ''url'' then
                then_map (Response_bytes s w)
                  (\<lambda>bytes. JString (createObjectURL P bytes (blob_type P ty)))
              else if out = ''text'' then
                then_map (Response_bytes s w) (\<lambda>bytes. JString (utf8_decode bytes))
              else (Rejected (UnsupportedOutput out), w))
         | _ \<Rightarrow> (Rejected StreamNotReadable, w))"

text \<open>
  \<^verbatim>\<open>_transform\<close>: the input is adapted first, then the codec is constructed, then the
  pipe is set up, and only then \<^verbatim>\<open>fromStream\<close> looks at the output selector.
\<close>

definition transform :: "platform \<Rightarrow> string \<Rightarrow> jsval \<Rightarrow> toptions \<Rightarrow> world
    \<Rightarrow> jsval promise \<times> world" where
  "transform P method data opts w =
     (let fmt = or_default DEFAULT_FORMAT (format opts);
          out = or_default ''blob'' (output opts);
          ty = or_default ''application/octet-stream'' (type opts);
          sg = signal opts
      in case toStream P data w of
           (Inl e, w1) \<Rightarrow> (Rejected e, w1)
         | (Inr src, w1) \<Rightarrow>
             (case (if method = ''compress'' then new_CompressionStream P fmt
                    else new_DecompressionStream P fmt) of
                Inl e \<Rightarrow> (Rejected e, w1)
              | Inr t \<Rightarrow>
                  (case pipeThrough src t sg w1 of
                     (Inl e, w2) \<Rightarrow> (Rejected e, w2)
                   | (Inr stream, w2) \<Rightarrow>
                       fromStream P (JReadableStream stream) (Some out) (Some ty) w2)))"

definition compress :: "platform \<Rightarrow> jsval \<Rightarrow> options \<Rightarrow> world \<Rightarrow> jsval promise \<times> world" where
  "compress P data opts w =
     transform P ''compress'' data
       \<lparr>output = Some (or_default ''blob'' (output opts)),
        format = Some (or_default DEFAULT_FORMAT (format opts)),
        signal = signal opts, type = None\<rparr> w"

text \<open>\<^verbatim>\<open>signal instanceof AbortSignal && signal.aborted\<close>, with the reason to throw.\<close>

definition aborted_reason :: "abort_signal option \<Rightarrow> string option" where
  "aborted_reason sg =
     (case sg of None \<Rightarrow> None | Some s \<Rightarrow> if aborted s then Some (reason s) else None)"

text \<open>
  \<^verbatim>\<open>compressStream\<close>. The signal goes to the constructor of \<^verbatim>\<open>CompressionStream\<close>, which
  takes no second argument, and not to \<^verbatim>\<open>pipeThrough\<close>.
\<close>

definition compressStream :: "platform \<Rightarrow> byte list rstream \<Rightarrow> options \<Rightarrow> world
    \<Rightarrow> (error + byte list rstream) \<times> world" where
  "compressStream P stream opts w =
     (let fmt = or_default ''gzip'' (format opts)
      in case aborted_reason (signal opts) of
           Some r \<Rightarrow> (Inl (Reason r), w)
         | None \<Rightarrow>
             (case new_CompressionStream P fmt of
                Inl e \<Rightarrow> (Inl e, w)
              | Inr t \<Rightarrow> pipeThrough stream t None w))"

definition decompress :: "platform \<Rightarrow> jsval \<Rightarrow> options \<Rightarrow> world \<Rightarrow> jsval promise \<times> world" where
  "decompress P data opts w =
     transform P ''decompress'' data
       \<lparr>output = output opts,
        format = Some (or_default DEFAULT_FORMAT (format opts)),
        signal = signal opts, type = None\<rparr> w"

definition decompressStream :: "platform \<Rightarrow> byte list rstream \<Rightarrow> options \<Rightarrow> world
    \<Rightarrow> (error + byte list rstream) \<times> world" where
  "decompressStream P stream opts w =
     (let fmt = or_default ''gzip'' (format opts)
      in case aborted_reason (signal opts) of
           Some r \<Rightarrow> (Inl (Reason r), w)
         | None \<Rightarrow>
             (case new_DecompressionStream P fmt of
                Inl e \<Rightarrow> (Inl e, w)
              | Inr t \<Rightarrow> pipeThrough stream t None w))"

text \<open>The helpers with a fixed format. They read \<^verbatim>\<open>output\<close> and \<^verbatim>\<open>signal\<close> only.\<close>

definition gzip :: "platform \<Rightarrow> jsval \<Rightarrow> options \<Rightarrow> world \<Rightarrow> jsval promise \<times> world" where
  "gzip P data opts w =
     transform P ''compress'' data
       \<lparr>output = Some (or_default ''blob'' (output opts)), format = Some GZIP,
        signal = signal opts, type = None\<rparr> w"

definition gzipStream :: "platform \<Rightarrow> byte list rstream \<Rightarrow> options \<Rightarrow> world
    \<Rightarrow> (error + byte list rstream) \<times> world" where
  "gzipStream P stream opts w =
     compressStream P stream \<lparr>output = None, format = Some GZIP, signal = signal opts\<rparr> w"

definition gunzip :: "platform \<Rightarrow> jsval \<Rightarrow> options \<Rightarrow> world \<Rightarrow> jsval promise \<times> world" where
  "gunzip P data opts w =
     transform P ''decompress'' data
       \<lparr>output = output opts, format = Some GZIP, signal = signal opts, type = None\<rparr> w"

definition gunzipStream :: "platform \<Rightarrow> byte list rstream \<Rightarrow> options \<Rightarrow> world
    \<Rightarrow> (error + byte list rstream) \<times> world" where
  "gunzipStream P stream opts w =
     decompressStream P stream \<lparr>output = None, format = Some GZIP, signal = signal opts\<rparr> w"

definition deflate :: "platform \<Rightarrow> jsval \<Rightarrow> options \<Rightarrow> world \<Rightarrow> jsval promise \<times> world" where
  "deflate P data opts w =
     transform P ''compress'' data
       \<lparr>output = Some (or_default ''blob'' (output opts)), format = Some DEFLATE,
        signal = signal opts, type = None\<rparr> w"

definition deflateRaw :: "platform \<Rightarrow> jsval \<Rightarrow> options \<Rightarrow> world \<Rightarrow> jsval promise \<times> world" where
  "deflateRaw P data opts w =
     transform P ''compress'' data
       \<lparr>output = Some (or_default ''blob'' (output opts)), format = Some DEFLATE_RAW,
        signal = signal opts, type = None\<rparr> w"

definition deflateStream :: "platform \<Rightarrow> byte list rstream \<Rightarrow> options \<Rightarrow> world
    \<Rightarrow> (error + byte list rstream) \<times> world" where
  "deflateStream P stream opts w =
     compressStream P stream \<lparr>output = None, format = Some DEFLATE, signal = signal opts\<rparr> w"

definition deflateRawStream :: "platform \<Rightarrow> byte list rstream \<Rightarrow> options \<Rightarrow> world
    \<Rightarrow> (error + byte list rstream) \<times> world" where
  "deflateRawStream P stream opts w =
     compressStream P stream \<lparr>output = None, format = Some DEFLATE_RAW, signal = signal opts\<rparr> w"

definition inflate :: "platform \<Rightarrow> jsval \<Rightarrow> options \<Rightarrow> world \<Rightarrow> jsval promise \<times> world" where
  "inflate P data opts w =
     transform P ''decompress'' data
       \<lparr>output = output opts, format = Some DEFLATE, signal = signal opts, type = None\<rparr> w"

definition inflateRaw :: "platform \<Rightarrow> jsval \<Rightarrow> options \<Rightarrow> world \<Rightarrow> jsval promise \<times> world" where
  "inflateRaw P data opts w =
     transform P ''decompress'' data
       \<lparr>output = output opts, format = Some DEFLATE_RAW, signal = signal opts, type = None\<rparr> w"

definition inflateStream :: "platform \<Rightarrow> byte list rstream \<Rightarrow> options \<Rightarrow> world
    \<Rightarrow> (error + byte list rstream) \<times> world" where
  "inflateStream P stream opts w =
     decompressStream P stream \<lparr>output = None, format = Some DEFLATE, signal = signal opts\<rparr> w"

definition inflateRawStream :: "platform \<Rightarrow> byte list rstream \<Rightarrow> options \<Rightarrow> world
    \<Rightarrow> (error + byte list rstream) \<times> world" where
  "inflateRawStream P stream opts w =
     decompressStream P stream
       \<lparr>output = None, format = Some DEFLATE_RAW, signal = signal opts\<rparr> w"

section \<open>A platform to run the library on\<close>

text \<open>
  What the theorems below ask of the platform's codec for a format: both constructors
  accept the format, and decompressing the compressed bytes, however they are cut into
  chunks, gives back the bytes that were compressed.
\<close>

definition codec_roundtrip :: "platform \<Rightarrow> string \<Rightarrow> bool" where
  "codec_roundtrip P f \<longleftrightarrow>
     (\<exists>c d. CompressionStream P f = Some c \<and> DecompressionStream P f = Some d \<and>
        (\<forall>cs ds. concat ds = concat (c cs) \<longrightarrow>
           (\<exists>os. d ds = Some os \<and> concat os = concat cs)))"

text \<open>\<^verbatim>\<open>Blob.stream\<close> delivers the bytes of the blob.\<close>

definition blob_stream_ok :: "platform \<Rightarrow> bool" where
  "blob_stream_ok P \<longleftrightarrow> (\<forall>b. concat (blob_stream P b) = b)"

definition formats :: "string list" where
  "formats = [GZIP, DEFLATE, DEFLATE_RAW]"

definition platform_ok :: "platform \<Rightarrow> bool" where
  "platform_ok P \<longleftrightarrow> blob_stream_ok P \<and> list_all (codec_roundtrip P) formats"

text \<open>
  A small platform for running the definitions: its codec stores the bytes behind a tag
  for the format, and refuses data that does not start with the tag.
\<close>

definition tag_of :: "string \<Rightarrow> byte list option" where
  "tag_of f =
     (if f = ''gzip'' then Some [0x1F, 0x8B]
      else if f = ''deflate'' then Some [0x78, 0x01]
      else if f = ''deflate-raw'' then Some []
      else None)"

definition store :: "byte list \<Rightarrow> byte list list \<Rightarrow> byte list list" where
  "store tag cs = [tag @ concat cs]"

definition unstore :: "byte list \<Rightarrow> byte list list \<Rightarrow> byte list list option" where
  "unstore tag ds =
     (if take (length tag) (concat ds) = tag then Some [drop (length tag) (concat ds)]
      else None)"

definition store_platform :: platform where
  "store_platform =
     \<lparr>CompressionStream = (\<lambda>f. map_option store (tag_of f)),
      DecompressionStream = (\<lambda>f. map_option unstore (tag_of f)),
      blob_stream = (\<lambda>b. if b = [] then [] else [b]),
      blob_type = (\<lambda>t. t),
      createObjectURL = (\<lambda>b t. [0x62, 0x6C, 0x6F, 0x62, 0x3A])\<rparr>"

text \<open>The code units of an ASCII string.\<close>

definition js :: "string \<Rightarrow> jsstring" where
  "js s = map (\<lambda>c. of_nat (of_char c)) s"

section \<open>Predicates and examples for the statements\<close>

text \<open>
  The classes \<^verbatim>\<open>toStream\<close> looks for: a string, a \<^verbatim>\<open>ReadableStream\<close>, an \<^verbatim>\<open>ArrayBuffer\<close>,
  a \<^verbatim>\<open>Uint8Array\<close>, a \<^verbatim>\<open>Blob\<close>, a \<^verbatim>\<open>Response\<close> or a \<^verbatim>\<open>Request\<close>.
\<close>

fun recognized :: "jsval \<Rightarrow> bool" where
  "recognized (JString s) = True"
| "recognized (JReadableStream s) = True"
| "recognized (JArrayBuffer b) = True"
| "recognized (JUint8Array b) = True"
| "recognized (JBlob b t) = True"
| "recognized (JResponse body) = True"
| "recognized (JRequest body) = True"
| "recognized v = False"

text \<open>The \<^verbatim>\<open>case\<close> labels of the \<^verbatim>\<open>switch\<close> in \<^verbatim>\<open>fromStream\<close>.\<close>

definition supported_outputs :: "string list" where
  "supported_outputs =
     [''stream'', ''response'', ''blob'', ''buffer'', ''bytes'', ''hex'', ''base64'',
      ''base64url'', ''url'', ''text'']"

text \<open>
  The bytes a binary input carries: a \<^verbatim>\<open>Uint8Array\<close>, an \<^verbatim>\<open>ArrayBuffer\<close> or a \<^verbatim>\<open>Blob\<close>
  carries its bytes; a stream, or a \<^verbatim>\<open>Response\<close> or \<^verbatim>\<open>Request\<close> with a stream as body,
  carries its chunks when the stream is one the state knows, has no reader and ends
  without an error.
\<close>

definition stream_bytes :: "world \<Rightarrow> byte list rstream \<Rightarrow> byte list option" where
  "stream_bytes w s =
     (if sid s \<in> locked w \<or> next_id w \<le> sid s then None
      else case payload s of Inl e \<Rightarrow> None | Inr cs \<Rightarrow> Some (concat cs))"

fun carried :: "world \<Rightarrow> jsval \<Rightarrow> byte list option" where
  "carried w (JUint8Array b) = Some b"
| "carried w (JArrayBuffer b) = Some b"
| "carried w (JBlob b t) = Some b"
| "carried w (JReadableStream s) = stream_bytes w s"
| "carried w (JResponse (Some s)) = stream_bytes w s"
| "carried w (JRequest (Some s)) = stream_bytes w s"
| "carried w v = None"

definition no_options :: options where
  "no_options = \<lparr>output = None, format = None, signal = None\<rparr>"

definition cancelled :: abort_signal where
  "cancelled = \<lparr>aborted = True, reason = ''These should all error.''\<rparr>"

definition two_chunks :: "byte list rstream" where
  "two_chunks = \<lparr>sid = 0, payload = Inr [[1, 2], [255]]\<rparr>"

definition one_stream_world :: world where
  "one_stream_world = \<lparr>locked = {}, next_id = 1\<rparr>"

section \<open>Basic facts\<close>

lemma wf_world_init: "wf_world init_world"
  by (simp add: wf_world_def init_world_def)

lemma wf_one_stream_world: "wf_world one_stream_world"
  by (simp add: wf_world_def one_stream_world_def)

lemma wf_world_fresh:
  assumes "wf_world w"
  shows "next_id w \<notin> locked w" and "Suc (next_id w) \<notin> locked w"
    and "Suc (Suc (next_id w)) \<notin> locked w"
  using assms by (auto simp add: wf_world_def)

lemma store_platform_simps:
  "CompressionStream store_platform f = map_option store (tag_of f)"
  "DecompressionStream store_platform f = map_option unstore (tag_of f)"
  "blob_stream store_platform b = (if b = [] then [] else [b])"
  "blob_type store_platform t = t"
  by (simp_all add: store_platform_def)

lemma store_roundtrip:
  assumes "tag_of f = Some tag"
  shows "codec_roundtrip store_platform f"
proof -
  have "\<forall>cs ds. concat ds = concat (store tag cs) \<longrightarrow>
          (\<exists>os. unstore tag ds = Some os \<and> concat os = concat cs)"
    by (simp add: store_def unstore_def)
  moreover have "CompressionStream store_platform f = Some (store tag)"
    and "DecompressionStream store_platform f = Some (unstore tag)"
    using assms by (simp_all add: store_platform_simps)
  ultimately show ?thesis
    unfolding codec_roundtrip_def by blast
qed

lemma store_platform_ok: "platform_ok store_platform"
  by (simp add: platform_ok_def blob_stream_ok_def store_platform_simps formats_def
      GZIP_def DEFLATE_def DEFLATE_RAW_def store_roundtrip tag_of_def)

lemma platform_ok_format:
  assumes "platform_ok P" and "f \<in> set formats"
  shows "codec_roundtrip P f" and "blob_stream_ok P"
  using assms by (auto simp add: platform_ok_def list_all_iff)

lemma pipeThrough_unlocked:
  assumes "sid src \<notin> locked w"
  shows "pipeThrough src t sg w =
     (Inr \<lparr>sid = next_id w,
           payload = (case aborted_reason sg of
                        Some r \<Rightarrow> Inl (Reason r)
                      | None \<Rightarrow> (case payload src of Inl e \<Rightarrow> Inl e | Inr cs \<Rightarrow> t cs))\<rparr>,
      w\<lparr>locked := insert (sid src) (locked w), next_id := Suc (next_id w)\<rparr>)"
  using assms
  by (simp add: pipeThrough_def new_ReadableStream_def aborted_reason_def split: option.splits)

lemma toStream_carried:
  assumes "carried w data = Some b" and "blob_stream_ok P" and "wf_world w"
  shows "\<exists>src w1 cs. toStream P data w = (Inr src, w1) \<and> payload src = Inr cs \<and> concat cs = b
           \<and> sid src \<notin> locked w1 \<and> sid src < next_id w1 \<and> wf_world w1"
proof -
  have fresh: "\<exists>src w1 cs. new_ReadableStream (Inr ds) w = (src, w1) \<and> payload src = Inr cs
                 \<and> concat cs = concat ds \<and> sid src \<notin> locked w1 \<and> sid src < next_id w1
                 \<and> wf_world w1" for ds :: "byte list list"
    using assms(3) by (auto simp add: new_ReadableStream_def wf_world_def)
  have given: "\<exists>cs. payload s = Inr cs \<and> concat cs = b \<and> sid s \<notin> locked w \<and> sid s < next_id w"
    if "stream_bytes w s = Some b" for s
    using that by (auto simp add: stream_bytes_def split: if_splits sum.splits)
  show ?thesis
  proof (cases data)
    case (JUint8Array x)
    with assms(1) fresh [of "[b]"] show ?thesis by auto
  next
    case (JArrayBuffer x)
    with assms(1) fresh [of "[b]"] show ?thesis by auto
  next
    case (JBlob x t)
    with assms(1,2) fresh [of "blob_stream P b"] show ?thesis
      by (auto simp add: blob_stream_ok_def)
  next
    case (JReadableStream s)
    with assms(1,3) given [of s] show ?thesis by auto
  next
    case (JResponse body)
    with assms(1,3) given show ?thesis by (cases body) auto
  next
    case (JRequest body)
    with assms(1,3) given show ?thesis by (cases body) auto
  qed (use assms(1) in simp_all)
qed

lemma toStream_string:
  assumes "wf_world w"
  shows "toStream P (JString s) w =
           (Inr \<lparr>sid = Suc (next_id w), payload = Inr (text_encoder None [s])\<rparr>,
            w\<lparr>locked := insert (next_id w) (locked w), next_id := Suc (Suc (next_id w))\<rparr>)"
  using wf_world_fresh(1) [OF assms]
  by (simp add: new_ReadableStream_def pipeThrough_def TextEncoderStream_def)

lemma transform_after_toStream:
  assumes "toStream P data w = (Inr src, w1)" and "sid src \<notin> locked w1"
    and "(if m = ''compress'' then new_CompressionStream P f
          else new_DecompressionStream P f) = Inr t"
  shows "transform P m data \<lparr>output = out, format = Some f, signal = sg, type = ty\<rparr> w =
     fromStream P
       (JReadableStream
          \<lparr>sid = next_id w1,
           payload = (case aborted_reason sg of
                        Some r \<Rightarrow> Inl (Reason r)
                      | None \<Rightarrow> (case payload src of Inl e \<Rightarrow> Inl e | Inr cs \<Rightarrow> t cs))\<rparr>)
       (Some (or_default ''blob'' out)) (Some (or_default ''application/octet-stream'' ty))
       (w1\<lparr>locked := insert (sid src) (locked w1), next_id := Suc (next_id w1)\<rparr>)"
  using assms by (simp add: transform_def pipeThrough_unlocked or_default_def)

lemma transform_prefix:
  "\<exists>r. \<forall>out. transform P m data \<lparr>output = out, format = f, signal = sg, type = ty\<rparr> w =
     (case r of
        (Inl e, w') \<Rightarrow> (Rejected e, w')
      | (Inr s, w') \<Rightarrow>
          fromStream P (JReadableStream s) (Some (or_default ''blob'' out))
            (Some (or_default ''application/octet-stream'' ty)) w')"
proof (cases "toStream P data w")
  case (Pair r0 w1)
  show ?thesis
  proof (cases r0)
    case (Inl e)
    with Pair show ?thesis
      by (intro exI [of _ "(Inl e, w1)"]) (simp add: transform_def Let_def)
  next
    case (Inr src)
    let ?t = "if m = ''compress''
              then new_CompressionStream P (or_default DEFAULT_FORMAT f)
              else new_DecompressionStream P (or_default DEFAULT_FORMAT f)"
    show ?thesis
    proof (cases ?t)
      case (Inl e)
      with Pair Inr show ?thesis
        by (intro exI [of _ "(Inl e, w1)"]) (simp add: transform_def Let_def)
    next
      case t: (Inr t)
      show ?thesis
      proof (cases "pipeThrough src t sg w1")
        case p: (Pair r2 w2)
        show ?thesis
          using Pair Inr t p
          by (intro exI [of _ "(r2, w2)"]) (cases r2; simp add: transform_def Let_def)
      qed
    qed
  qed
qed

lemma fromStream_unsupported:
  assumes "out \<notin> set supported_outputs"
  shows "fromStream P (JReadableStream s) (Some out) ty w = (Rejected (UnsupportedOutput out), w)"
  using assms by (simp add: fromStream_def supported_outputs_def or_default_def)

lemma fromStream_blob:
  assumes "sid s \<notin> locked w" and "payload s = Inr cs"
  shows "fromStream P (JReadableStream s) (Some ''blob'') (Some ty) w =
     (Fulfilled (JBlob (concat cs) (blob_type P ty)), w\<lparr>locked := insert (sid s) (locked w)\<rparr>)"
  using assms
  by (simp add: fromStream_def or_default_def then_map_def Response_bytes_def new_Response_def
      read_body_def)

lemma fromStream_text:
  assumes "sid s \<notin> locked w" and "payload s = Inr cs"
  shows "fromStream P (JReadableStream s) (Some ''text'') (Some ty) w =
     (Fulfilled (JString (utf8_decode (concat cs))), w\<lparr>locked := insert (sid s) (locked w)\<rparr>)"
  using assms
  by (simp add: fromStream_def or_default_def then_map_def Response_bytes_def new_Response_def
      read_body_def)

section \<open>The adapter and the helpers\<close>

text \<open>
  C7. \<^verbatim>\<open>toStream\<close> returns a \<^verbatim>\<open>ReadableStream\<close> it is given as it is: the same object with
  the same chunks, and nothing in the state changes (no reader is attached, no stream
  is created).
\<close>

theorem toStream_stream_identity:
  "toStream P (JReadableStream s) w = (Inr s, w)"
  by simp

text \<open>
  C9. Each helper is the generic operation with the format fixed: \<^verbatim>\<open>gzip\<close> and
  \<^verbatim>\<open>gunzip\<close> are \<^verbatim>\<open>compress\<close> and \<^verbatim>\<open>decompress\<close> at \<^verbatim>\<open>'gzip'\<close>, \<^verbatim>\<open>deflate\<close> and
  \<^verbatim>\<open>inflate\<close> at \<^verbatim>\<open>'deflate'\<close>, \<^verbatim>\<open>deflateRaw\<close> and \<^verbatim>\<open>inflateRaw\<close> at \<^verbatim>\<open>'deflate-raw'\<close>,
  and each stream helper is \<^verbatim>\<open>compressStream\<close> or \<^verbatim>\<open>decompressStream\<close> at its format,
  for every input, every options object and every state.
\<close>

theorem helpers_fix_format:
  "gzip P data opts w = compress P data (opts\<lparr>format := Some ''gzip''\<rparr>) w
 \<and> gunzip P data opts w = decompress P data (opts\<lparr>format := Some ''gzip''\<rparr>) w
 \<and> deflate P data opts w = compress P data (opts\<lparr>format := Some ''deflate''\<rparr>) w
 \<and> inflate P data opts w = decompress P data (opts\<lparr>format := Some ''deflate''\<rparr>) w
 \<and> deflateRaw P data opts w = compress P data (opts\<lparr>format := Some ''deflate-raw''\<rparr>) w
 \<and> inflateRaw P data opts w = decompress P data (opts\<lparr>format := Some ''deflate-raw''\<rparr>) w
 \<and> gzipStream P stream opts w = compressStream P stream (opts\<lparr>format := Some ''gzip''\<rparr>) w
 \<and> gunzipStream P stream opts w = decompressStream P stream (opts\<lparr>format := Some ''gzip''\<rparr>) w
 \<and> deflateStream P stream opts w = compressStream P stream (opts\<lparr>format := Some ''deflate''\<rparr>) w
 \<and> inflateStream P stream opts w
      = decompressStream P stream (opts\<lparr>format := Some ''deflate''\<rparr>) w
 \<and> deflateRawStream P stream opts w
      = compressStream P stream (opts\<lparr>format := Some ''deflate-raw''\<rparr>) w
 \<and> inflateRawStream P stream opts w
      = decompressStream P stream (opts\<lparr>format := Some ''deflate-raw''\<rparr>) w"
  by (simp add: gzip_def gunzip_def deflate_def inflate_def deflateRaw_def inflateRaw_def
      gzipStream_def gunzipStream_def deflateStream_def inflateStream_def deflateRawStream_def
      inflateRawStream_def compress_def decompress_def compressStream_def decompressStream_def
      GZIP_def DEFLATE_def DEFLATE_RAW_def or_default_def)

section \<open>Failures\<close>

text \<open>
  C4. With a signal that is aborted already, \<^verbatim>\<open>compressStream\<close> and \<^verbatim>\<open>decompressStream\<close>
  throw the signal's reason (a throw of the call itself, not a rejected promise), and
  the state is the one they were called in: the source stream has no reader attached
  and no stream was created.
\<close>

theorem streams_fail_on_aborted_signal:
  assumes "signal opts = Some s" and "aborted s"
  shows "compressStream P stream opts w = (Inl (Reason (reason s)), w)
       \<and> decompressStream P stream opts w = (Inl (Reason (reason s)), w)"
  using assms by (simp add: compressStream_def decompressStream_def aborted_reason_def)

theorem streams_fail_on_aborted_signal_witness:
  "signal (no_options\<lparr>signal := Some cancelled\<rparr>) = Some cancelled \<and> aborted cancelled
 \<and> compressStream store_platform two_chunks (no_options\<lparr>signal := Some cancelled\<rparr>)
      one_stream_world = (Inl (Reason ''These should all error.''), one_stream_world)
 \<and> decompressStream store_platform two_chunks (no_options\<lparr>signal := Some cancelled\<rparr>)
      one_stream_world = (Inl (Reason ''These should all error.''), one_stream_world)"
  using streams_fail_on_aborted_signal
    [of "no_options\<lparr>signal := Some cancelled\<rparr>" cancelled store_platform two_chunks
      one_stream_world]
  by (simp add: no_options_def cancelled_def)

text \<open>
  C5. An input that is neither a string nor an object of one of the classes
  \<^verbatim>\<open>toStream\<close> looks for makes \<^verbatim>\<open>compress\<close> and \<^verbatim>\<open>decompress\<close> reject, with the
  invalid-input error when it is not an object and with the unsupported-input error
  when it is one; the state is the one of the call, so no stream was created or locked
  and nothing was piped.
\<close>

theorem invalid_input_rejected:
  assumes "\<not> recognized data"
  shows "compress P data opts w =
           (Rejected (if typeof data = ''object'' then UnsupportedInputType
                      else InvalidInputType (typeof data)), w)
       \<and> decompress P data opts w =
           (Rejected (if typeof data = ''object'' then UnsupportedInputType
                      else InvalidInputType (typeof data)), w)"
  using assms by (cases data) (simp_all add: compress_def decompress_def transform_def)

theorem invalid_input_rejected_witness:
  "\<not> recognized (JNumber 9)
 \<and> compress store_platform (JNumber 9) no_options init_world
     = (Rejected (InvalidInputType ''number''), init_world)
 \<and> decompress store_platform (JNumber 9) no_options init_world
     = (Rejected (InvalidInputType ''number''), init_world)"
  using invalid_input_rejected [of "JNumber 9" store_platform no_options init_world]
  by simp

text \<open>
  C10. A \<^verbatim>\<open>Response\<close> or \<^verbatim>\<open>Request\<close> whose body is \<^verbatim>\<open>null\<close> is refused by \<^verbatim>\<open>toStream\<close>
  with the unsupported-input error, and so \<^verbatim>\<open>compress\<close> and \<^verbatim>\<open>decompress\<close> reject with
  it: the input is not taken as an empty byte sequence.
\<close>

theorem bodyless_message_rejected:
  "toStream P (JResponse None) w = (Inl UnsupportedInputType, w)
 \<and> toStream P (JRequest None) w = (Inl UnsupportedInputType, w)
 \<and> compress P (JResponse None) opts w = (Rejected UnsupportedInputType, w)
 \<and> compress P (JRequest None) opts w = (Rejected UnsupportedInputType, w)
 \<and> decompress P (JResponse None) opts w = (Rejected UnsupportedInputType, w)
 \<and> decompress P (JRequest None) opts w = (Rejected UnsupportedInputType, w)"
  by (simp add: compress_def decompress_def transform_def)

section \<open>Output selectors\<close>

text \<open>
  What a call returns with the selector \<^verbatim>\<open>'stream'\<close> fixes what it returns with none.
\<close>

lemma transform_default_blob:
  assumes "transform P m data \<lparr>output = Some ''stream'', format = f, signal = sg, type = ty\<rparr> w
             = (Fulfilled (JReadableStream s), w1)"
    and "sid s \<notin> locked w1" and "payload s = Inr cs"
    and "out = None \<or> out = Some ''blob''"
  shows "transform P m data \<lparr>output = out, format = f, signal = sg, type = ty\<rparr> w =
           (Fulfilled (JBlob (concat cs) (blob_type P (or_default ''application/octet-stream'' ty))),
            w1\<lparr>locked := insert (sid s) (locked w1)\<rparr>)"
proof -
  obtain r where r: "\<And>out. transform P m data \<lparr>output = out, format = f, signal = sg, type = ty\<rparr> w =
     (case r of
        (Inl e, w') \<Rightarrow> (Rejected e, w')
      | (Inr s, w') \<Rightarrow>
          fromStream P (JReadableStream s) (Some (or_default ''blob'' out))
            (Some (or_default ''application/octet-stream'' ty)) w')"
    using transform_prefix [of P m data f sg ty w] by blast
  obtain x w' where x: "r = (x, w')" by (cases r)
  show ?thesis
  proof (cases x)
    case (Inl e)
    with assms(1) r [of "Some ''stream''"] x show ?thesis by simp
  next
    case (Inr s0)
    with assms(1) r [of "Some ''stream''"] x have "s0 = s" and "w' = w1"
      by (simp_all add: fromStream_def or_default_def)
    with Inr x r [of out] assms(2,3,4) show ?thesis
      by (auto simp add: fromStream_blob or_default_def)
  qed
qed

text \<open>
  C8. With no output selector \<^verbatim>\<open>compress\<close> and \<^verbatim>\<open>decompress\<close> return one \<^verbatim>\<open>Blob\<close> of type
  \<^verbatim>\<open>application/octet-stream\<close> that holds all the bytes of the result: whenever the
  call with the selector \<^verbatim>\<open>'stream'\<close> gives a stream that carries the chunks \<open>cs\<close>, the
  call with no selector gives the blob of \<open>concat cs\<close>. \<^verbatim>\<open>decompress\<close> passes its absent
  selector on and \<^verbatim>\<open>_transform\<close> puts \<^verbatim>\<open>'blob'\<close> for it, so both behave as with
  \<^verbatim>\<open>'blob'\<close>.
\<close>

theorem default_output_is_blob:
  assumes "compress P data (opts\<lparr>output := Some ''stream''\<rparr>) w = (Fulfilled (JReadableStream s), w1)"
    and "sid s \<notin> locked w1" and "payload s = Inr cs"
    and "decompress P data2 (opts2\<lparr>output := Some ''stream''\<rparr>) v
           = (Fulfilled (JReadableStream s2), v1)"
    and "sid s2 \<notin> locked v1" and "payload s2 = Inr cs2"
  shows "compress P data (opts\<lparr>output := None\<rparr>) w =
           (Fulfilled (JBlob (concat cs) (blob_type P ''application/octet-stream'')),
            w1\<lparr>locked := insert (sid s) (locked w1)\<rparr>)
       \<and> decompress P data2 (opts2\<lparr>output := None\<rparr>) v =
           (Fulfilled (JBlob (concat cs2) (blob_type P ''application/octet-stream'')),
            v1\<lparr>locked := insert (sid s2) (locked v1)\<rparr>)
       \<and> compress P data (opts\<lparr>output := None\<rparr>) w
           = compress P data (opts\<lparr>output := Some ''blob''\<rparr>) w
       \<and> decompress P data2 (opts2\<lparr>output := None\<rparr>) v
           = decompress P data2 (opts2\<lparr>output := Some ''blob''\<rparr>) v"
proof -
  have "compress P data (opts\<lparr>output := None\<rparr>) w =
           (Fulfilled (JBlob (concat cs) (blob_type P ''application/octet-stream'')),
            w1\<lparr>locked := insert (sid s) (locked w1)\<rparr>)"
    using transform_default_blob [OF _ assms(2,3), of P "''compress''" data _ _ None w "Some ''blob''"]
      assms(1)
    by (simp add: compress_def or_default_def)
  moreover have "decompress P data2 (opts2\<lparr>output := None\<rparr>) v =
           (Fulfilled (JBlob (concat cs2) (blob_type P ''application/octet-stream'')),
            v1\<lparr>locked := insert (sid s2) (locked v1)\<rparr>)"
    using transform_default_blob [OF _ assms(5,6), of P "''decompress''" data2 _ _ None v None]
      assms(4)
    by (simp add: decompress_def or_default_def)
  moreover have "compress P data (opts\<lparr>output := None\<rparr>) w
           = compress P data (opts\<lparr>output := Some ''blob''\<rparr>) w"
    by (simp add: compress_def or_default_def)
  moreover have "decompress P data2 (opts2\<lparr>output := None\<rparr>) v
           = decompress P data2 (opts2\<lparr>output := Some ''blob''\<rparr>) v"
    by (simp add: decompress_def transform_def or_default_def)
  ultimately show ?thesis by simp
qed

theorem default_output_is_blob_witness:
  "compress store_platform (JUint8Array [1, 2, 255]) (no_options\<lparr>output := Some ''stream''\<rparr>)
     init_world
     = (Fulfilled (JReadableStream \<lparr>sid = 1, payload = Inr [[0x1F, 0x8B, 1, 2, 255]]\<rparr>),
        \<lparr>locked = {0}, next_id = 2\<rparr>)
 \<and> sid \<lparr>sid = 1, payload = Inr [[0x1F, 0x8B, 1, 2, 255 :: byte]]\<rparr>
       \<notin> locked \<lparr>locked = {0}, next_id = 2\<rparr>
 \<and> payload \<lparr>sid = 1, payload = Inr [[0x1F, 0x8B, 1, 2, 255 :: byte]]\<rparr>
       = Inr [[0x1F, 0x8B, 1, 2, 255]]
 \<and> decompress store_platform (JReadableStream two_chunks)
       (no_options\<lparr>format := Some ''deflate-raw'', output := Some ''stream''\<rparr>) one_stream_world
     = (Fulfilled (JReadableStream \<lparr>sid = 1, payload = Inr [[1, 2, 255]]\<rparr>),
        \<lparr>locked = {0}, next_id = 2\<rparr>)
 \<and> sid \<lparr>sid = 1, payload = Inr [[1, 2, 255 :: byte]]\<rparr> \<notin> locked \<lparr>locked = {0}, next_id = 2\<rparr>
 \<and> payload \<lparr>sid = 1, payload = Inr [[1, 2, 255 :: byte]]\<rparr> = Inr [[1, 2, 255]]
 \<and> compress store_platform (JUint8Array [1, 2, 255]) (no_options\<lparr>output := None\<rparr>) init_world
     = (Fulfilled (JBlob [0x1F, 0x8B, 1, 2, 255] ''application/octet-stream''),
        \<lparr>locked = {1, 0}, next_id = 2\<rparr>)
 \<and> decompress store_platform (JReadableStream two_chunks)
       (no_options\<lparr>format := Some ''deflate-raw'', output := None\<rparr>) one_stream_world
     = (Fulfilled (JBlob [1, 2, 255] ''application/octet-stream''),
        \<lparr>locked = {1, 0}, next_id = 2\<rparr>)"
proof -
  have c: "compress store_platform (JUint8Array [1, 2, 255])
       (no_options\<lparr>output := Some ''stream''\<rparr>) init_world
     = (Fulfilled (JReadableStream \<lparr>sid = 1, payload = Inr [[0x1F, 0x8B, 1, 2, 255]]\<rparr>),
        \<lparr>locked = {0}, next_id = 2\<rparr>)"
    by (simp add: compress_def transform_def no_options_def init_world_def or_default_def
        DEFAULT_FORMAT_def GZIP_def new_CompressionStream_def store_platform_simps tag_of_def
        pipeThrough_def new_ReadableStream_def fromStream_def store_def)
  have d: "decompress store_platform (JReadableStream two_chunks)
       (no_options\<lparr>format := Some ''deflate-raw'', output := Some ''stream''\<rparr>) one_stream_world
     = (Fulfilled (JReadableStream \<lparr>sid = 1, payload = Inr [[1, 2, 255]]\<rparr>),
        \<lparr>locked = {0}, next_id = 2\<rparr>)"
    by (simp add: decompress_def transform_def no_options_def one_stream_world_def
        two_chunks_def or_default_def new_DecompressionStream_def store_platform_simps
        tag_of_def pipeThrough_def new_ReadableStream_def fromStream_def unstore_def)
  have d': "decompress store_platform (JReadableStream two_chunks)
       ((no_options\<lparr>format := Some ''deflate-raw''\<rparr>)\<lparr>output := Some ''stream''\<rparr>)
       one_stream_world
     = (Fulfilled (JReadableStream \<lparr>sid = 1, payload = Inr [[1, 2, 255]]\<rparr>),
        \<lparr>locked = {0}, next_id = 2\<rparr>)"
    using d by (simp add: no_options_def)
  show ?thesis
    using default_output_is_blob [OF c _ _ d'] c d
    by (simp add: store_platform_simps no_options_def insert_commute)
qed

text \<open>
  With \<^verbatim>\<open>'base64'\<close> or \<^verbatim>\<open>'base64url'\<close> no call is ever fulfilled, whatever the platform,
  the input and the options.
\<close>

lemma fromStream_base64:
  assumes "out = ''base64'' \<or> out = ''base64url''"
  shows "fst (fromStream P stream (Some out) ty w) \<noteq> Fulfilled v"
  using assms
  by (cases stream) (auto simp add: fromStream_def or_default_def Let_def split: sum.splits)

lemma base64_never_fulfils:
  assumes "out = ''base64'' \<or> out = ''base64url''"
  shows "fst (transform P m data \<lparr>output = Some out, format = f, signal = sg, type = ty\<rparr> w)
           \<noteq> Fulfilled v"
proof (cases "toStream P data w")
  case (Pair r w1)
  show ?thesis
  proof (cases r)
    case (Inl e)
    with Pair show ?thesis by (simp add: transform_def Let_def)
  next
    case (Inr src)
    let ?t = "if m = ''compress''
              then new_CompressionStream P (or_default DEFAULT_FORMAT f)
              else new_DecompressionStream P (or_default DEFAULT_FORMAT f)"
    show ?thesis
    proof (cases ?t)
      case (Inl e)
      with Pair Inr show ?thesis by (simp add: transform_def Let_def)
    next
      case t: (Inr t)
      show ?thesis
      proof (cases "pipeThrough src t sg w1")
        case p: (Pair r2 w2)
        show ?thesis
          using Pair Inr t p fromStream_base64 [OF assms]
          by (cases r2) (simp_all add: transform_def Let_def or_default_def [of _ "Some out"])
      qed
    qed
  qed
qed

text \<open>
  C2 at a concrete input. On the bytes 1, 2, 255 \<^verbatim>\<open>compress\<close> rejects for both base64
  selectors with the error of calling a method that is not there, and so does
  \<^verbatim>\<open>decompress\<close> on valid compressed data; the neighbouring selectors \<^verbatim>\<open>'hex'\<close> and
  \<^verbatim>\<open>'bytes'\<close> are fulfilled on the same inputs.
\<close>

theorem base64_output_rejects:
  "compress store_platform (JUint8Array [1, 2, 255]) (no_options\<lparr>output := Some ''base64''\<rparr>)
     init_world = (Rejected (NotAFunction ''then''), \<lparr>locked = {0}, next_id = 2\<rparr>)
 \<and> compress store_platform (JUint8Array [1, 2, 255]) (no_options\<lparr>output := Some ''base64url''\<rparr>)
     init_world = (Rejected (NotAFunction ''then''), \<lparr>locked = {0}, next_id = 2\<rparr>)
 \<and> decompress store_platform (JUint8Array [0x1F, 0x8B, 1, 2, 255])
     (no_options\<lparr>output := Some ''base64''\<rparr>) init_world
     = (Rejected (NotAFunction ''then''), \<lparr>locked = {0}, next_id = 2\<rparr>)
 \<and> decompress store_platform (JUint8Array [0x1F, 0x8B, 1, 2, 255])
     (no_options\<lparr>output := Some ''base64url''\<rparr>) init_world
     = (Rejected (NotAFunction ''then''), \<lparr>locked = {0}, next_id = 2\<rparr>)
 \<and> compress store_platform (JUint8Array [1, 2, 255]) (no_options\<lparr>output := Some ''hex''\<rparr>)
     init_world = (Fulfilled (JString (js ''1f8b0102ff'')), \<lparr>locked = {1, 0}, next_id = 2\<rparr>)
 \<and> decompress store_platform (JUint8Array [0x1F, 0x8B, 1, 2, 255])
     (no_options\<lparr>output := Some ''bytes''\<rparr>) init_world
     = (Fulfilled (JUint8Array [1, 2, 255]), \<lparr>locked = {1, 0}, next_id = 2\<rparr>)"
  by (simp add: compress_def decompress_def transform_def no_options_def init_world_def
      or_default_def DEFAULT_FORMAT_def GZIP_def new_CompressionStream_def
      new_DecompressionStream_def store_platform_simps tag_of_def pipeThrough_def
      new_ReadableStream_def fromStream_def new_Response_def Response_bytes_def read_body_def
      then_map_def aborted_reason_def store_def unstore_def toHex_def hex_digit_def js_def)

text \<open>
  C3, as the code has it. The output selector is looked at last. For an input that
  \<^verbatim>\<open>toStream\<close> accepts, with its stream unlocked and a format the codec accepts, a
  selector that is none of the \<^verbatim>\<open>case\<close> labels makes \<^verbatim>\<open>compress\<close> and \<^verbatim>\<open>decompress\<close>
  reject with the unsupported-output error; by then the source stream is locked to the
  pipe and the pipe's output stream exists.
\<close>

theorem unsupported_output_rejected_after_pipe:
  assumes "toStream P data w = (Inr src, w1)" and "sid src \<notin> locked w1"
    and "CompressionStream P (or_default DEFAULT_FORMAT (format opts)) = Some c"
    and "DecompressionStream P (or_default DEFAULT_FORMAT (format opts)) = Some d"
    and "output opts = Some out" and "out \<notin> set supported_outputs"
  shows "compress P data opts w =
           (Rejected (UnsupportedOutput out),
            w1\<lparr>locked := insert (sid src) (locked w1), next_id := Suc (next_id w1)\<rparr>)
       \<and> decompress P data opts w =
           (Rejected (UnsupportedOutput out),
            w1\<lparr>locked := insert (sid src) (locked w1), next_id := Suc (next_id w1)\<rparr>)"
proof -
  let ?f = "or_default DEFAULT_FORMAT (format opts)"
  have c: "(if ''compress'' = ''compress'' then new_CompressionStream P ?f
            else new_DecompressionStream P ?f) = Inr (\<lambda>cs. Inr (c cs))"
    using assms(3) by (simp add: new_CompressionStream_def)
  have d: "(if ''decompress'' = ''compress'' then new_CompressionStream P ?f
            else new_DecompressionStream P ?f)
           = Inr (\<lambda>cs. case d cs of None \<Rightarrow> Inl CorruptData | Some os \<Rightarrow> Inr os)"
    using assms(4) by (simp add: new_DecompressionStream_def)
  note tc = transform_after_toStream [OF assms(1,2) c, of "Some out" "signal opts" None]
  note td = transform_after_toStream [OF assms(1,2) d, of "Some out" "signal opts" None]
  have "compress P data opts w = (Rejected (UnsupportedOutput out),
            w1\<lparr>locked := insert (sid src) (locked w1), next_id := Suc (next_id w1)\<rparr>)"
    unfolding compress_def using assms(5,6) tc
    by (simp add: fromStream_unsupported or_default_def [of _ "Some out"])
  moreover have "decompress P data opts w = (Rejected (UnsupportedOutput out),
            w1\<lparr>locked := insert (sid src) (locked w1), next_id := Suc (next_id w1)\<rparr>)"
    unfolding decompress_def using assms(5,6) td
    by (simp add: fromStream_unsupported or_default_def [of _ "Some out"])
  ultimately show ?thesis by simp
qed

theorem unsupported_output_rejected_after_pipe_witness:
  "toStream store_platform (JReadableStream two_chunks) one_stream_world
     = (Inr two_chunks, one_stream_world)
 \<and> sid two_chunks \<notin> locked one_stream_world
 \<and> CompressionStream store_platform
      (or_default DEFAULT_FORMAT (format (no_options\<lparr>output := Some ''nope''\<rparr>)))
     = Some (store [0x1F, 0x8B])
 \<and> DecompressionStream store_platform
      (or_default DEFAULT_FORMAT (format (no_options\<lparr>output := Some ''nope''\<rparr>)))
     = Some (unstore [0x1F, 0x8B])
 \<and> output (no_options\<lparr>output := Some ''nope''\<rparr>) = Some ''nope''
 \<and> ''nope'' \<notin> set supported_outputs
 \<and> compress store_platform (JReadableStream two_chunks)
      (no_options\<lparr>output := Some ''nope''\<rparr>) one_stream_world
     = (Rejected (UnsupportedOutput ''nope''), \<lparr>locked = {0}, next_id = 2\<rparr>)
 \<and> decompress store_platform (JReadableStream two_chunks)
      (no_options\<lparr>output := Some ''nope''\<rparr>) one_stream_world
     = (Rejected (UnsupportedOutput ''nope''), \<lparr>locked = {0}, next_id = 2\<rparr>)"
  using unsupported_output_rejected_after_pipe
    [of store_platform "JReadableStream two_chunks" one_stream_world two_chunks
      one_stream_world "no_options\<lparr>output := Some ''nope''\<rparr>" "store [0x1F, 0x8B]"
      "unstore [0x1F, 0x8B]" "''nope''"]
  by (simp add: no_options_def or_default_def supported_outputs_def two_chunks_def
      one_stream_world_def DEFAULT_FORMAT_def GZIP_def store_platform_simps tag_of_def)

text \<open>
  C3, as the spec has it, fails: for the number 9 and the selector \<^verbatim>\<open>'nope'\<close> the error is
  the invalid-input error, not the unsupported-output error; and for a stream the
  unsupported-output error comes after the stream was locked by the pipe.
\<close>

theorem unsupported_output_counterexample:
  "fst (compress store_platform (JNumber 9) (no_options\<lparr>output := Some ''nope''\<rparr>) init_world)
     = Rejected (InvalidInputType ''number'')
 \<and> fst (compress store_platform (JNumber 9) (no_options\<lparr>output := Some ''nope''\<rparr>) init_world)
     \<noteq> Rejected (UnsupportedOutput ''nope'')
 \<and> ''nope'' \<notin> set supported_outputs
 \<and> sid two_chunks \<notin> locked one_stream_world
 \<and> fst (compress store_platform (JReadableStream two_chunks)
          (no_options\<lparr>output := Some ''nope''\<rparr>) one_stream_world)
     = Rejected (UnsupportedOutput ''nope'')
 \<and> sid two_chunks \<in> locked (snd (compress store_platform (JReadableStream two_chunks)
          (no_options\<lparr>output := Some ''nope''\<rparr>) one_stream_world))"
  by (simp add: compress_def transform_def no_options_def init_world_def or_default_def
      supported_outputs_def two_chunks_def one_stream_world_def DEFAULT_FORMAT_def GZIP_def
      new_CompressionStream_def store_platform_simps tag_of_def pipeThrough_def
      new_ReadableStream_def fromStream_def)

section \<open>Round trips\<close>

text \<open>
  C1. On a platform whose codec gives back what it compressed, for each of the three
  formats and every byte sequence \<open>b\<close> (the empty one too), carried by a
  \<^verbatim>\<open>Uint8Array\<close>, an \<^verbatim>\<open>ArrayBuffer\<close>, a \<^verbatim>\<open>Blob\<close>, a stream or a message body:
  \<^verbatim>\<open>compress\<close> with the format is fulfilled, and \<^verbatim>\<open>decompress\<close> of its result with the
  same format is fulfilled with a blob that holds exactly \<open>b\<close>.
\<close>

theorem compress_decompress_roundtrip:
  assumes "platform_ok P" and "f \<in> set formats" and "wf_world w" and "carried w data = Some b"
  shows "\<exists>c. fst (compress P data (no_options\<lparr>format := Some f\<rparr>) w) = Fulfilled c
           \<and> fst (decompress P c (no_options\<lparr>format := Some f\<rparr>)
                   (snd (compress P data (no_options\<lparr>format := Some f\<rparr>) w)))
               = Fulfilled (JBlob b (blob_type P ''application/octet-stream''))"
proof -
  let ?ty = "blob_type P ''application/octet-stream''"
  from platform_ok_format [OF assms(1,2)] have bs: "blob_stream_ok P"
    and "codec_roundtrip P f" by simp_all
  then obtain c d where c: "CompressionStream P f = Some c"
    and d: "DecompressionStream P f = Some d"
    and cd: "\<And>cs ds. concat ds = concat (c cs) \<Longrightarrow> \<exists>os. d ds = Some os \<and> concat os = concat cs"
    unfolding codec_roundtrip_def by blast
  have nc: "(if ''compress'' = ''compress'' then new_CompressionStream P f
             else new_DecompressionStream P f) = Inr (\<lambda>cs. Inr (c cs))"
    using c by (simp add: new_CompressionStream_def)
  have nd: "(if ''decompress'' = ''compress'' then new_CompressionStream P f
             else new_DecompressionStream P f)
            = Inr (\<lambda>cs. case d cs of None \<Rightarrow> Inl CorruptData | Some os \<Rightarrow> Inr os)"
    using d by (simp add: new_DecompressionStream_def)
  txt \<open>The compression.\<close>
  from toStream_carried [OF assms(4) bs assms(3)]
  obtain src w1 cs where ts: "toStream P data w = (Inr src, w1)"
    and cs: "payload src = Inr cs" "concat cs = b"
    and src: "sid src \<notin> locked w1" "sid src < next_id w1" and wf1: "wf_world w1"
    by blast
  let ?w2 = "w1\<lparr>locked := insert (next_id w1) (insert (sid src) (locked w1)),
               next_id := Suc (next_id w1)\<rparr>"
  note tc = transform_after_toStream [OF ts src(1) nc, of "Some ''blob''" None None]
  have comp: "compress P data (no_options\<lparr>format := Some f\<rparr>) w
                = (Fulfilled (JBlob (concat (c cs)) ?ty), ?w2)"
    unfolding compress_def using tc wf_world_fresh(1) [OF wf1] src(2) cs(1)
    by (simp add: no_options_def or_default_def aborted_reason_def fromStream_blob)
  txt \<open>The decompression of its result.\<close>
  have wf2: "wf_world ?w2"
    using wf1 src(2) by (auto simp add: wf_world_def)
  have "carried ?w2 (JBlob (concat (c cs)) ?ty) = Some (concat (c cs))" by simp
  from toStream_carried [OF this bs wf2]
  obtain src' w3 ds where ts': "toStream P (JBlob (concat (c cs)) ?ty) ?w2 = (Inr src', w3)"
    and ds: "payload src' = Inr ds" "concat ds = concat (c cs)"
    and src': "sid src' \<notin> locked w3" "sid src' < next_id w3" and wf3: "wf_world w3"
    by blast
  from cd [OF ds(2)] obtain os where os: "d ds = Some os" "concat os = concat cs" by blast
  note td = transform_after_toStream [OF ts' src'(1) nd, of None None None]
  have "fst (decompress P (JBlob (concat (c cs)) ?ty) (no_options\<lparr>format := Some f\<rparr>) ?w2)
          = Fulfilled (JBlob b ?ty)"
    unfolding decompress_def using td wf_world_fresh(1) [OF wf3] src'(2) ds(1) os cs(2)
    by (simp add: no_options_def or_default_def aborted_reason_def fromStream_blob)
  with comp show ?thesis by simp
qed

theorem compress_decompress_roundtrip_witness:
  "platform_ok store_platform \<and> ''deflate'' \<in> set formats \<and> wf_world init_world
 \<and> carried init_world (JUint8Array []) = Some []
 \<and> (\<exists>c. fst (compress store_platform (JUint8Array []) (no_options\<lparr>format := Some ''deflate''\<rparr>)
               init_world) = Fulfilled c
        \<and> fst (decompress store_platform c (no_options\<lparr>format := Some ''deflate''\<rparr>)
                (snd (compress store_platform (JUint8Array [])
                       (no_options\<lparr>format := Some ''deflate''\<rparr>) init_world)))
            = Fulfilled (JBlob [] ''application/octet-stream''))"
  using compress_decompress_roundtrip
    [of store_platform "''deflate''" init_world "JUint8Array []" "[]"]
    store_platform_ok wf_world_init
  by (simp add: formats_def DEFLATE_def store_platform_simps)

text \<open>
  A string goes through the text encoder before the codec, and \<^verbatim>\<open>'text'\<close> decodes what
  the decompressor gives back.
\<close>

lemma string_roundtrip:
  assumes "platform_ok P" and "f \<in> set formats" and "wf_world w"
  shows "\<exists>c. CompressionStream P f = Some c
           \<and> fst (compress P (JString s) (no_options\<lparr>format := Some f\<rparr>) w)
               = Fulfilled (JBlob (concat (c (text_encoder None [s])))
                   (blob_type P ''application/octet-stream''))
           \<and> fst (decompress P
                   (JBlob (concat (c (text_encoder None [s])))
                      (blob_type P ''application/octet-stream''))
                   (no_options\<lparr>format := Some f, output := Some ''text''\<rparr>)
                   (snd (compress P (JString s) (no_options\<lparr>format := Some f\<rparr>) w)))
               = Fulfilled (JString (utf8_decode (concat (text_encoder None [s]))))"
proof -
  let ?n = "next_id w"
  let ?ty = "blob_type P ''application/octet-stream''"
  let ?enc = "text_encoder None [s]"
  from platform_ok_format [OF assms(1,2)] have bs: "blob_stream_ok P"
    and "codec_roundtrip P f" by simp_all
  then obtain c d where c: "CompressionStream P f = Some c"
    and d: "DecompressionStream P f = Some d"
    and cd: "\<And>cs ds. concat ds = concat (c cs) \<Longrightarrow> \<exists>os. d ds = Some os \<and> concat os = concat cs"
    unfolding codec_roundtrip_def by blast
  txt \<open>The compression: the string stream, the encoder's stream, the codec's stream.\<close>
  let ?w0 = "w\<lparr>locked := insert ?n (locked w), next_id := Suc (Suc ?n)\<rparr>"
  let ?w1 = "w\<lparr>locked := insert (Suc (Suc ?n)) (insert (Suc ?n) (insert ?n (locked w))),
               next_id := Suc (Suc (Suc ?n))\<rparr>"
  note ts = toStream_string [OF assms(3), of P s]
  have nc: "(if ''compress'' = ''compress'' then new_CompressionStream P f
             else new_DecompressionStream P f) = Inr (\<lambda>cs. Inr (c cs))"
    using c by (simp add: new_CompressionStream_def)
  have "sid \<lparr>sid = Suc ?n, payload = Inr ?enc\<rparr> \<notin> locked ?w0"
    using wf_world_fresh(2) [OF assms(3)] by simp
  note tc = transform_after_toStream [OF ts this nc, of "Some ''blob''" None None]
  have comp: "compress P (JString s) (no_options\<lparr>format := Some f\<rparr>) w
                = (Fulfilled (JBlob (concat (c ?enc)) ?ty), ?w1)"
    unfolding compress_def using tc wf_world_fresh(3) [OF assms(3)]
    by (simp add: no_options_def or_default_def aborted_reason_def fromStream_blob)
  txt \<open>The decompression of its result, read as text.\<close>
  have wf1: "wf_world ?w1"
    using assms(3) by (auto simp add: wf_world_def)
  have "carried ?w1 (JBlob (concat (c ?enc)) ?ty) = Some (concat (c ?enc))" by simp
  from toStream_carried [OF this bs wf1]
  obtain src' w3 ds where ts2: "toStream P (JBlob (concat (c ?enc)) ?ty) ?w1 = (Inr src', w3)"
    and ds: "payload src' = Inr ds" "concat ds = concat (c ?enc)"
    and src': "sid src' \<notin> locked w3" "sid src' < next_id w3" and wf3: "wf_world w3"
    by blast
  from cd [OF ds(2)] obtain os where os: "d ds = Some os" "concat os = concat ?enc" by blast
  have nd: "(if ''decompress'' = ''compress'' then new_CompressionStream P f
             else new_DecompressionStream P f)
            = Inr (\<lambda>cs. case d cs of None \<Rightarrow> Inl CorruptData | Some os \<Rightarrow> Inr os)"
    using d by (simp add: new_DecompressionStream_def)
  note td = transform_after_toStream [OF ts2 src'(1) nd, of "Some ''text''" None None]
  have "fst (decompress P (JBlob (concat (c ?enc)) ?ty)
               (no_options\<lparr>format := Some f, output := Some ''text''\<rparr>) ?w1)
          = Fulfilled (JString (utf8_decode (concat ?enc)))"
    unfolding decompress_def using td wf_world_fresh(1) [OF wf3] src'(2) ds(1) os
    by (simp add: no_options_def or_default_def aborted_reason_def fromStream_text)
  with comp c show ?thesis by simp
qed

lemma hello_utf8:
  "text_encoder None [js ''Hello, World!'']
     = [[0x48, 0x65, 0x6C, 0x6C, 0x6F, 0x2C, 0x20, 0x57, 0x6F, 0x72, 0x6C, 0x64, 0x21]]"
  by (simp add: js_def is_lead_def is_trail_def emit_def utf8_bytes_def)

lemma hello_decoded:
  "utf8_decode [0x48, 0x65, 0x6C, 0x6C, 0x6F, 0x2C, 0x20, 0x57, 0x6F, 0x72, 0x6C, 0x64, 0x21]
     = js ''Hello, World!''"
  by (simp add: utf8_decode_def start_byte_def utf16_units_def js_def)

lemma beyond_ascii_utf8:
  "text_encoder None [[0x48, 0xE9, 0x20AC, 0xD83D, 0xDE00]]
     = [[0x48, 0xC3, 0xA9, 0xE2, 0x82, 0xAC, 0xF0, 0x9F, 0x98, 0x80]]"
  by (simp add: is_lead_def is_trail_def emit_def utf8_bytes_def from_surrogates_def)

text \<open>
  C6. A string input is encoded as UTF-8 before it is compressed: the blob \<^verbatim>\<open>compress\<close>
  returns for a string holds what the compressor makes of the text encoder's bytes.
  The string \<^verbatim>\<open>"Hello, World!"\<close> is encoded as its thirteen ASCII bytes, and compressing it
  with \<^verbatim>\<open>'gzip'\<close> and decompressing the result with \<^verbatim>\<open>'gzip'\<close> and the selector \<^verbatim>\<open>'text'\<close>
  gives \<^verbatim>\<open>"Hello, World!"\<close> back.
\<close>

theorem string_input_utf8_roundtrip:
  assumes "platform_ok P" and "wf_world w"
  shows "(\<exists>c. CompressionStream P ''gzip'' = Some c
            \<and> (\<forall>s. fst (compress P (JString s) (no_options\<lparr>format := Some ''gzip''\<rparr>) w)
                      = Fulfilled (JBlob (concat (c (text_encoder None [s])))
                          (blob_type P ''application/octet-stream''))))
       \<and> text_encoder None [js ''Hello, World!'']
           = [[0x48, 0x65, 0x6C, 0x6C, 0x6F, 0x2C, 0x20, 0x57, 0x6F, 0x72, 0x6C, 0x64, 0x21]]
       \<and> (\<exists>z. fst (compress P (JString (js ''Hello, World!''))
                     (no_options\<lparr>format := Some ''gzip''\<rparr>) w) = Fulfilled z
              \<and> fst (decompress P z (no_options\<lparr>format := Some ''gzip'', output := Some ''text''\<rparr>)
                      (snd (compress P (JString (js ''Hello, World!''))
                             (no_options\<lparr>format := Some ''gzip''\<rparr>) w)))
                  = Fulfilled (JString (js ''Hello, World!'')))"
proof -
  have gz: "''gzip'' \<in> set formats" by (simp add: formats_def GZIP_def)
  note rt = string_roundtrip [OF assms(1) gz assms(2)]
  from rt [of "[]"] obtain c where c: "CompressionStream P ''gzip'' = Some c" by blast
  have "fst (compress P (JString s) (no_options\<lparr>format := Some ''gzip''\<rparr>) w)
          = Fulfilled (JBlob (concat (c (text_encoder None [s])))
              (blob_type P ''application/octet-stream''))" for s
    using rt [of s] c by auto
  moreover have "\<exists>z. fst (compress P (JString (js ''Hello, World!''))
                     (no_options\<lparr>format := Some ''gzip''\<rparr>) w) = Fulfilled z
              \<and> fst (decompress P z (no_options\<lparr>format := Some ''gzip'', output := Some ''text''\<rparr>)
                      (snd (compress P (JString (js ''Hello, World!''))
                             (no_options\<lparr>format := Some ''gzip''\<rparr>) w)))
                  = Fulfilled (JString (js ''Hello, World!''))"
    using rt [of "js ''Hello, World!''", unfolded hello_utf8]
    by (auto simp only: concat.simps append_Nil2 hello_decoded)
  ultimately show ?thesis using c hello_utf8 by blast
qed

theorem string_input_utf8_roundtrip_witness:
  "platform_ok store_platform \<and> wf_world init_world
 \<and> (\<exists>c. CompressionStream store_platform ''gzip'' = Some c
        \<and> (\<forall>s. fst (compress store_platform (JString s) (no_options\<lparr>format := Some ''gzip''\<rparr>)
                      init_world)
                  = Fulfilled (JBlob (concat (c (text_encoder None [s])))
                      (blob_type store_platform ''application/octet-stream''))))
 \<and> (\<exists>z. fst (compress store_platform (JString (js ''Hello, World!''))
               (no_options\<lparr>format := Some ''gzip''\<rparr>) init_world) = Fulfilled z
        \<and> fst (decompress store_platform z
                (no_options\<lparr>format := Some ''gzip'', output := Some ''text''\<rparr>)
                (snd (compress store_platform (JString (js ''Hello, World!''))
                       (no_options\<lparr>format := Some ''gzip''\<rparr>) init_world)))
            = Fulfilled (JString (js ''Hello, World!'')))"
  using string_input_utf8_roundtrip [OF store_platform_ok wf_world_init]
    store_platform_ok wf_world_init
  by blast

end
